theory Spec2Isabelle
  imports Complex_Main
begin

section \<open>Cycloidal drive helper: parameters and mathematics\<close>

text \<open>
  Shallow embedding of \<^verbatim>\<open>App/cycloid_app.py\<close>. Python floats are read as real numbers
  (rounding, infinities and NaN are not represented); Python integers are \<^typ>\<open>int\<close>;
  one-dimensional numpy arrays are lists and numpy's elementwise operations are
  \<^const>\<open>map\<close> and \<^const>\<open>map2\<close>. A raised exception is the left injection of a sum.
\<close>

datatype error = ZeroDivisionError | ValueError

record Params =
  R :: real
  Rr :: real
  E :: real
  N :: int
  out_pin_circle_R :: real
  out_pin_count :: int
  out_pin_diam :: real
  hole_clearance :: real
  dual_disc :: bool
  disc2_phase_deg :: real
  samples :: int
  eps :: real

subsection \<open>Library functions used by the program\<close>

text \<open>
  \<^verbatim>\<open>numpy.arctan2(y, x)\<close>: the angle of the point \<open>(x, y)\<close>, in \<open>(-\<pi>, \<pi>]\<close>,
  defined for every pair of arguments (in particular for \<open>x = 0\<close>).
\<close>

definition arctan2 :: "real \<Rightarrow> real \<Rightarrow> real" where
  "arctan2 y x =
     (if 0 < x then arctan (y / x)
      else if x < 0 then (if 0 \<le> y then arctan (y / x) + pi else arctan (y / x) - pi)
      else if 0 < y then pi / 2
      else if y < 0 then - (pi / 2)
      else 0)"

text \<open>
  \<^verbatim>\<open>numpy.linspace(start, stop, num, endpoint)\<close>: a negative \<open>num\<close> raises
  \<^verbatim>\<open>ValueError\<close>; otherwise the samples are \<open>arange(num) * step + start\<close> with
  \<open>step = (stop - start) / div\<close>, where \<open>div\<close> is \<open>num - 1\<close> with the end point and
  \<open>num\<close> without it (for \<open>div \<le> 0\<close> the samples are \<open>arange(num) * delta + start\<close>),
  and with the end point and more than one sample the last sample is overwritten by
  \<open>stop\<close>.
\<close>

definition linspace :: "real \<Rightarrow> real \<Rightarrow> int \<Rightarrow> bool \<Rightarrow> error + real list" where
  "linspace start stop num endpoint =
     (if num < 0 then Inl ValueError
      else
        let dv = (if endpoint then num - 1 else num);
            delta = stop - start;
            y0 = map real [0 ..< nat num];
            y1 = (if 0 < dv then map (\<lambda>v. v * (delta / of_int dv)) y0
                  else map (\<lambda>v. v * delta) y0);
            y2 = map (\<lambda>v. v + start) y1;
            y3 = (if endpoint \<and> 1 < num then y2[nat num - 1 := stop] else y2)
        in Inr y3)"

text \<open>\<^verbatim>\<open>numpy.column_stack((xs, ys))\<close> on two arrays of one length: the rows \<open>(x, y)\<close>.\<close>

definition column_stack :: "real list \<Rightarrow> real list \<Rightarrow> (real \<times> real) list" where
  "column_stack xs ys = zip xs ys"

text \<open>\<^verbatim>\<open>math.radians\<close>.\<close>

definition radians :: "real \<Rightarrow> real" where
  "radians d = d * pi / 180"

subsection \<open>Section A: mathematics\<close>

text \<open>
  \<^verbatim>\<open>cycloid_profile_xy\<close>. The quotient \<open>R / (E * N)\<close> is computed on Python scalars, where
  a zero divisor raises \<^verbatim>\<open>ZeroDivisionError\<close>; everything else is elementwise on the
  array \<open>t\<close>.
\<close>

definition cycloid_profile_xy ::
  "real list \<Rightarrow> real \<Rightarrow> real \<Rightarrow> real \<Rightarrow> int \<Rightarrow> real \<Rightarrow> error + (real list \<times> real list)" where
  "cycloid_profile_xy t R' Rr' E' N' phase_rad =
     (let tt = map (\<lambda>v. v + phase_rad) t;
          a = map (\<lambda>v. (1 - of_int N') * v) tt
      in if E' * of_int N' = 0 then Inl ZeroDivisionError
         else
           let denom = map (\<lambda>c. R' / (E' * of_int N') - c) (map cos a);
               psi = map2 arctan2 (map sin a) denom;
               x = map2 (-) (map2 (-) (map (\<lambda>v. R' * cos v) tt)
                                     (map (\<lambda>v. Rr' * cos v) (map2 (+) tt psi)))
                            (map (\<lambda>v. E' * cos (of_int N' * v)) tt);
               y = map2 (+) (map2 (+) (map (\<lambda>v. - R' * sin v) tt)
                                     (map (\<lambda>v. Rr' * sin v) (map2 (+) tt psi)))
                            (map (\<lambda>v. E' * sin (of_int N' * v)) tt)
           in Inr (x, y))"

definition roller_centres :: "real \<Rightarrow> int \<Rightarrow> error + (real \<times> real) list" where
  "roller_centres R' N' =
     (case linspace 0 (2 * pi) N' False of
        Inl e \<Rightarrow> Inl e
      | Inr ang \<Rightarrow> Inr (column_stack (map (\<lambda>v. R' * cos v) ang) (map (\<lambda>v. R' * sin v) ang)))"

definition output_hole_centres :: "real \<Rightarrow> int \<Rightarrow> error + (real \<times> real) list" where
  "output_hole_centres out_R out_count =
     (case linspace 0 (2 * pi) out_count False of
        Inl e \<Rightarrow> Inl e
      | Inr ang \<Rightarrow>
          Inr (column_stack (map (\<lambda>v. out_R * cos v) ang) (map (\<lambda>v. out_R * sin v) ang)))"

subsection \<open>Section B: the SolidWorks equation text\<close>

text \<open>Python's \<^verbatim>\<open>str\<close> of an integer, as an f-string renders \<open>{N}\<close>: decimal digits, with
  a minus sign for a negative number.\<close>

definition digit_char :: "nat \<Rightarrow> char" where
  "digit_char d = ''0123456789'' ! d"

function str_nat :: "nat \<Rightarrow> string" where
  "str_nat n = (if n < 10 then [digit_char n] else str_nat (n div 10) @ [digit_char (n mod 10)])"
  by pat_completeness auto
termination
  by (relation "measure id") auto

declare str_nat.simps [simp del]

definition str_int :: "int \<Rightarrow> string" where
  "str_int i = (if i < 0 then ''-'' @ str_nat (nat (- i)) else str_nat (nat i))"

text \<open>\<^verbatim>\<open>"\n".join(lines)\<close>.\<close>

fun join_lines :: "string list \<Rightarrow> string" where
  "join_lines [] = []"
| "join_lines [l] = l"
| "join_lines (l # m # ls) = l @ [CHR 0x0A] @ join_lines (m # ls)"

text \<open>The two ends \<open>t0\<close>, \<open>t1\<close> of the recommended parameter range. The difference is the
  real one; the double subtraction of the source rounds it to the nearest double.\<close>

definition recommended_t_range :: "Params \<Rightarrow> real \<times> real" where
  "recommended_t_range p = (0, 2 * pi - eps p)"

definition psi_text :: "int \<Rightarrow> string" where
  "psi_text n =
     ''atan( sin((1-'' @ str_int n @ '')*t) / ((R/(E*'' @ str_int n @ '')) - cos((1-''
       @ str_int n @ '')*t)) )''"

definition x_eq_text :: "int \<Rightarrow> string" where
  "x_eq_text n =
     ''X = (R*cos(t)) - (Rr*cos(t + '' @ psi_text n @ '')) - (E*cos('' @ str_int n @ ''*t))''"

definition y_eq_text :: "int \<Rightarrow> string" where
  "y_eq_text n =
     ''Y = (-R*sin(t)) + (Rr*sin(t + '' @ psi_text n @ '')) + (E*sin('' @ str_int n @ ''*t))''"

text \<open>
  \<^verbatim>\<open>solidworks_equations_text\<close>, as the list of its lines and as the joined text. How
  Python prints a float inside an f-string is a parameter \<open>fmt\<close> of the model.
\<close>

definition solidworks_equations_lines :: "(real \<Rightarrow> string) \<Rightarrow> Params \<Rightarrow> string list" where
  "solidworks_equations_lines fmt p =
     (let t0 = fst (recommended_t_range p);
          t1 = snd (recommended_t_range p);
          lines =
            [''SolidWorks Equation Driven Curve (Parametric)'',
             ''Units: mm for R, Rr, E. Parameter t is radians.'',
             [],
             ''Define these variables in SolidWorks Equations:'',
             ''R  = '' @ fmt (R p),
             ''Rr = '' @ fmt (Rr p),
             ''E  = '' @ fmt (E p),
             ''N  = '' @ str_int (N p),
             [],
             ''Paste into the Equation Driven Curve dialog:'',
             x_eq_text (N p),
             y_eq_text (N p),
             [],
             ''Recommended t range: '' @ fmt t0 @ '' to '' @ fmt t1 @ '' (avoid exactly 2*pi)'']
      in if dual_disc p then
           let phase = radians (disc2_phase_deg p)
           in lines @
              [[],
               ''Optional: Disc 2 (phase shifted)'',
               ''Use t2 = t + '' @ fmt phase @ ''  (or add '' @ fmt phase
                 @ '' everywhere t appears)'']
         else lines)"

definition solidworks_equations_text :: "(real \<Rightarrow> string) \<Rightarrow> Params \<Rightarrow> string" where
  "solidworks_equations_text fmt p = join_lines (solidworks_equations_lines fmt p)"

subsection \<open>Section C: the script\<close>

text \<open>The default values of the input widgets.\<close>

definition default_params :: Params where
  "default_params =
     \<lparr>R = 20, Rr = 3, E = 11 / 10, N = 10,
      out_pin_circle_R = 10, out_pin_count = 4, out_pin_diam = 8, hole_clearance = 2 / 10,
      dual_disc = False, disc2_phase_deg = 180,
      samples = 1200, eps = 9 / 10000\<rparr>"

text \<open>The sanity checks. \<open>p.R / p.N\<close> raises \<^verbatim>\<open>ZeroDivisionError\<close> for \<open>N = 0\<close>.\<close>

definition sanity_warnings :: "Params \<Rightarrow> error + string list" where
  "sanity_warnings p =
     (let w0 = [];
          w1 = (if E p \<le> 0 then w0 @ [''E must be > 0.''] else w0)
      in if N p = 0 then Inl ZeroDivisionError
         else
           let w2 = (if R p / of_int (N p) < E p
                     then w1 @ [''E is larger than R/N. This often causes ugly/self-intersecting profiles. Not always invalid, but check fit.'']
                     else w1);
               w3 = (if R p \<le> Rr p
                     then w2 @ [''R should usually be larger than Rr (roller circle radius vs roller radius).'']
                     else w2)
           in Inr w3)"

text \<open>
  The script from the sanity checks to the profile points: the warnings, the parameter
  sweep \<open>t\<close>, the profile of disc 1 and, with \<open>dual_disc\<close>, the profile of disc 2.
\<close>

definition profile_script ::
  "Params \<Rightarrow> error + (string list \<times> real list \<times> (real list \<times> real list)
                      \<times> (real list \<times> real list) option)" where
  "profile_script p =
     (case sanity_warnings p of
        Inl e \<Rightarrow> Inl e
      | Inr warnings \<Rightarrow>
          (case linspace 0 (2 * pi - eps p) (samples p) True of
             Inl e \<Rightarrow> Inl e
           | Inr t \<Rightarrow>
               (case cycloid_profile_xy t (R p) (Rr p) (E p) (N p) 0 of
                  Inl e \<Rightarrow> Inl e
                | Inr xy1 \<Rightarrow>
                    (let phase2 = radians (disc2_phase_deg p)
                     in if dual_disc p then
                          (case cycloid_profile_xy t (R p) (Rr p) (E p) (N p) phase2 of
                             Inl e \<Rightarrow> Inl e
                           | Inr xy2 \<Rightarrow> Inr (warnings, t, xy1, Some xy2))
                        else Inr (warnings, t, xy1, None)))))"

text \<open>The body of \<^const>\<open>cycloid_profile_xy\<close> at one sample, used to state its result.\<close>

definition profile_psi :: "real \<Rightarrow> real \<Rightarrow> int \<Rightarrow> real \<Rightarrow> real" where
  "profile_psi R' E' N' tt =
     arctan2 (sin ((1 - of_int N') * tt)) (R' / (E' * of_int N') - cos ((1 - of_int N') * tt))"

definition profile_x :: "real \<Rightarrow> real \<Rightarrow> real \<Rightarrow> int \<Rightarrow> real \<Rightarrow> real" where
  "profile_x R' Rr' E' N' tt =
     R' * cos tt - Rr' * cos (tt + profile_psi R' E' N' tt) - E' * cos (of_int N' * tt)"

definition profile_y :: "real \<Rightarrow> real \<Rightarrow> real \<Rightarrow> int \<Rightarrow> real \<Rightarrow> real" where
  "profile_y R' Rr' E' N' tt =
     - R' * sin tt + Rr' * sin (tt + profile_psi R' E' N' tt) + E' * sin (of_int N' * tt)"


section \<open>Properties\<close>

lemma zip_map_same: "zip (map f xs) (map g xs) = map (\<lambda>v. (f v, g v)) xs"
  by (induction xs) simp_all

lemma map2_map_same: "map2 h (map f xs) (map g xs) = map (\<lambda>v. h (f v) (g v)) xs"
  by (simp add: zip_map_same)

lemma cycloid_profile_xy_pointwise:
  "cycloid_profile_xy t R' Rr' E' N' ph =
     (if E' * of_int N' = 0 then Inl ZeroDivisionError
      else Inr (map (\<lambda>v. profile_x R' Rr' E' N' (v + ph)) t,
                map (\<lambda>v. profile_y R' Rr' E' N' (v + ph)) t))"
  by (simp add: cycloid_profile_xy_def Let_def map2_map_same zip_map_same
      profile_x_def profile_y_def profile_psi_def o_def)

subsection \<open>The two-argument inverse tangent\<close>

text \<open>The model of \<open>arctan2\<close> is the angle of the point \<open>(x, y)\<close>, in \<open>(-\<pi>, \<pi>]\<close>.\<close>

lemma arctan2_range: "- pi < arctan2 y x \<and> arctan2 y x \<le> pi"
proof -
  have b: "- (pi / 2) < arctan (y / x)" "arctan (y / x) < pi / 2"
    by (rule arctan_lbound, rule arctan_ubound)
  have neg: "y < 0 \<Longrightarrow> x < 0 \<Longrightarrow> 0 < arctan (y / x)"
    by (simp add: divide_neg_neg)
  have pos: "0 \<le> y \<Longrightarrow> x < 0 \<Longrightarrow> arctan (y / x) \<le> 0"
    by (simp add: divide_nonneg_neg)
  show ?thesis
    using b neg pos pi_gt_zero unfolding arctan2_def by (auto simp: not_less)
qed

lemma sqrt_quotient_pos:
  assumes "0 < (x::real)"
  shows "sqrt (x\<^sup>2 + y\<^sup>2) = x * sqrt (1 + (y / x)\<^sup>2)"
proof -
  have "x\<^sup>2 + y\<^sup>2 = x\<^sup>2 * (1 + (y / x)\<^sup>2)"
    using assms by (simp add: field_simps power2_eq_square)
  then show ?thesis using assms by (simp add: real_sqrt_mult)
qed

lemma arctan2_polar_pos:
  assumes "0 < (x::real)"
  shows "sqrt (x\<^sup>2 + y\<^sup>2) * cos (arctan2 y x) = x"
    and "sqrt (x\<^sup>2 + y\<^sup>2) * sin (arctan2 y x) = y"
proof -
  have s: "0 < sqrt (1 + (y / x)\<^sup>2)"
    by (simp add: add_pos_nonneg)
  show "sqrt (x\<^sup>2 + y\<^sup>2) * cos (arctan2 y x) = x"
    using assms s by (simp add: arctan2_def sqrt_quotient_pos cos_arctan)
  show "sqrt (x\<^sup>2 + y\<^sup>2) * sin (arctan2 y x) = y"
    using assms s by (simp add: arctan2_def sqrt_quotient_pos sin_arctan)
qed

lemma arctan2_flip:
  assumes "x < 0"
  shows "cos (arctan2 y x) = - cos (arctan2 (- y) (- x))"
    and "sin (arctan2 y x) = sin (arctan2 (- y) (- x)) * (- 1)"
  using assms by (simp_all add: arctan2_def)

lemma arctan2_polar:
  assumes "x \<noteq> 0 \<or> y \<noteq> 0"
  shows "sqrt (x\<^sup>2 + y\<^sup>2) * cos (arctan2 y x) = x
       \<and> sqrt (x\<^sup>2 + y\<^sup>2) * sin (arctan2 y x) = y"
proof -
  consider "0 < x" | "x < 0" | "x = 0" "0 < y" | "x = 0" "y < 0"
    using assms by linarith
  then show ?thesis
  proof cases
    case 1
    then show ?thesis by (simp add: arctan2_polar_pos)
  next
    case 2
    then have p: "0 < - x" by simp
    show ?thesis
      using arctan2_polar_pos [OF p, of "- y"] arctan2_flip [OF 2, of y]
      by simp
  next
    case 3
    then show ?thesis by (simp add: arctan2_def)
  next
    case 4
    then show ?thesis by (simp add: arctan2_def)
  qed
qed

text \<open>Where the denominator is negative the two-argument form is not the single-argument
  one: it is off by \<open>\<pi>\<close>.\<close>

lemma arctan2_differs_from_arctan:
  "x < 0 \<Longrightarrow> arctan2 y x \<noteq> arctan (y / x)"
  using pi_gt_zero by (simp add: arctan2_def)

lemma arctan2_uminus:
  "\<not> (x < 0 \<and> y = 0) \<Longrightarrow> arctan2 (- y) x = - arctan2 y x"
  by (auto simp add: arctan2_def arctan_minus)

lemma arctan2_zero_neg: "x < 0 \<Longrightarrow> arctan2 0 x = pi"
  by (simp add: arctan2_def)

subsection \<open>The curve evaluator\<close>

text \<open>
  C1. For every parameter vector with \<open>E * N \<noteq> 0\<close> and every array of parameter values,
  the evaluator returns at each value \<open>t\<close> the closed-form point with
  \<open>tt = t + phaseOffset\<close>, \<open>a = (1 - N) * tt\<close>, \<open>denom = R / (E * N) - cos a\<close>,
  \<open>psi = arctan2 (sin a) denom\<close> (the two-argument inverse tangent),
  \<open>x = R cos tt - Rr cos (tt + psi) - E cos (N tt)\<close> and
  \<open>y = - R sin tt + Rr sin (tt + psi) + E sin (N tt)\<close>.
\<close>

theorem cycloid_profile_xy_closed_form:
  assumes "E' * of_int N' \<noteq> 0"
  shows "cycloid_profile_xy t R' Rr' E' N' phaseOffset =
     Inr (map (\<lambda>ti. let tt = ti + phaseOffset;
                        a = (1 - of_int N') * tt;
                        denom = R' / (E' * of_int N') - cos a;
                        psi = arctan2 (sin a) denom
                    in R' * cos tt - Rr' * cos (tt + psi) - E' * cos (of_int N' * tt)) t,
          map (\<lambda>ti. let tt = ti + phaseOffset;
                        a = (1 - of_int N') * tt;
                        denom = R' / (E' * of_int N') - cos a;
                        psi = arctan2 (sin a) denom
                    in - R' * sin tt + Rr' * sin (tt + psi) + E' * sin (of_int N' * tt)) t)"
  using assms
  by (simp add: cycloid_profile_xy_pointwise profile_x_def profile_y_def profile_psi_def Let_def)

text \<open>The evaluator at the default parameters and \<open>t = 0\<close>.\<close>

theorem cycloid_profile_xy_closed_form_witness:
  "(11 / 10) * of_int 10 \<noteq> (0::real)
   \<and> cycloid_profile_xy [0] 20 3 (11 / 10) 10 0 = Inr ([159 / 10], [0])"
  using cycloid_profile_xy_closed_form [of "11 / 10" 10 "[0]" 20 3 0]
  by (simp add: arctan2_def)

text \<open>
  C4. Phase-shift equivalence: evaluating at the samples \<open>t\<close> with phase offset \<open>\<phi>\<close> gives
  the result of evaluating at the samples \<open>t + \<phi>\<close> with phase offset 0.
\<close>

theorem cycloid_profile_xy_phase_shift:
  "cycloid_profile_xy ts R' Rr' E' N' phi =
     cycloid_profile_xy (map (\<lambda>t. t + phi) ts) R' Rr' E' N' 0"
  by (simp add: cycloid_profile_xy_pointwise o_def)

lemma sin_int_period: "sin (x + of_int k * (2 * pi)) = sin x"
proof -
  have "sin (x + (2 * pi) * of_int k) = sin x"
    by (simp only: sin_add cos_int_2pin sin_int_2pin mult_1_right mult_zero_right add_0_right)
  then show ?thesis by (simp only: mult.commute [of "of_int k" "2 * pi"])
qed

lemma cos_int_period: "cos (x + of_int k * (2 * pi)) = cos x"
proof -
  have "cos (x + (2 * pi) * of_int k) = cos x"
    by (simp only: cos_add cos_int_2pin sin_int_2pin mult_1_right mult_zero_right diff_zero)
  then show ?thesis by (simp only: mult.commute [of "of_int k" "2 * pi"])
qed

lemma sin_int_mult_shift: "sin (of_int k * (tt + 2 * pi)) = sin (of_int k * tt)"
  using sin_int_period [of "of_int k * tt" k] by (simp add: algebra_simps)

lemma cos_int_mult_shift: "cos (of_int k * (tt + 2 * pi)) = cos (of_int k * tt)"
  using cos_int_period [of "of_int k * tt" k] by (simp add: algebra_simps)

lemma profile_psi_periodic: "profile_psi R' E' N' (tt + 2 * pi) = profile_psi R' E' N' tt"
proof -
  have "(1 - real_of_int N') = of_int (1 - N')" by simp
  then show ?thesis
    unfolding profile_psi_def
    by (simp only: sin_int_mult_shift cos_int_mult_shift)
qed

lemma profile_x_periodic: "profile_x R' Rr' E' N' (tt + 2 * pi) = profile_x R' Rr' E' N' tt"
proof -
  have "cos (tt + 2 * pi + profile_psi R' E' N' tt) = cos (tt + profile_psi R' E' N' tt)"
    using cos_int_period [of "tt + profile_psi R' E' N' tt" 1] by (simp add: algebra_simps)
  then show ?thesis
    by (simp add: profile_x_def profile_psi_periodic cos_int_mult_shift)
qed

lemma profile_y_periodic: "profile_y R' Rr' E' N' (tt + 2 * pi) = profile_y R' Rr' E' N' tt"
proof -
  have "sin (tt + 2 * pi + profile_psi R' E' N' tt) = sin (tt + profile_psi R' E' N' tt)"
    using sin_int_period [of "tt + profile_psi R' E' N' tt" 1] by (simp add: algebra_simps)
  then show ?thesis
    by (simp add: profile_y_def profile_psi_periodic sin_int_mult_shift)
qed

text \<open>
  C5. Periodicity: for an integer roller count and a fixed phase offset, the evaluator
  returns at the samples \<open>t + 2\<pi>\<close> the coordinates it returns at the samples \<open>t\<close> (in real
  arithmetic they are equal; floating-point rounding is not modelled).
\<close>

theorem cycloid_profile_xy_periodic:
  "cycloid_profile_xy (map (\<lambda>t. t + 2 * pi) ts) R' Rr' E' N' ph = cycloid_profile_xy ts R' Rr' E' N' ph"
proof -
  have h: "\<And>t. t + 2 * pi + ph = (t + ph) + 2 * pi" by simp
  show ?thesis
    by (simp add: cycloid_profile_xy_pointwise o_def h profile_x_periodic profile_y_periodic)
qed

lemma profile_psi_uminus:
  assumes "\<not> (R' / (E' * of_int N') - cos ((1 - of_int N') * tt) < 0 \<and> sin ((1 - of_int N') * tt) = 0)"
  shows "profile_psi R' E' N' (- tt) = - profile_psi R' E' N' tt"
  unfolding profile_psi_def
  by (simp only: mult_minus_right sin_minus cos_minus arctan2_uminus [OF assms])

lemma profile_psi_pi:
  assumes "R' / (E' * of_int N') - cos ((1 - of_int N') * tt) < 0 \<and> sin ((1 - of_int N') * tt) = 0"
  shows "profile_psi R' E' N' tt = pi" and "profile_psi R' E' N' (- tt) = pi"
  using assms by (simp_all add: profile_psi_def arctan2_zero_neg)

lemma profile_x_even: "profile_x R' Rr' E' N' (- tt) = profile_x R' Rr' E' N' tt"
proof (cases "R' / (E' * of_int N') - cos ((1 - of_int N') * tt) < 0 \<and> sin ((1 - of_int N') * tt) = 0")
  case True
  show ?thesis
    by (simp add: profile_x_def profile_psi_pi [OF True])
next
  case False
  have "cos (- tt + - profile_psi R' E' N' tt) = cos (tt + profile_psi R' E' N' tt)"
    using cos_minus [of "tt + profile_psi R' E' N' tt"] by (simp only: minus_add_distrib)
  then show ?thesis
    by (simp add: profile_x_def profile_psi_uminus [OF False])
qed

lemma profile_y_odd: "profile_y R' Rr' E' N' (- tt) = - profile_y R' Rr' E' N' tt"
proof (cases "R' / (E' * of_int N') - cos ((1 - of_int N') * tt) < 0 \<and> sin ((1 - of_int N') * tt) = 0")
  case True
  show ?thesis
    by (simp add: profile_y_def profile_psi_pi [OF True])
next
  case False
  have "sin (- tt + - profile_psi R' E' N' tt) = - sin (tt + profile_psi R' E' N' tt)"
    using sin_minus [of "tt + profile_psi R' E' N' tt"] by (simp only: minus_add_distrib)
  then show ?thesis
    by (simp add: profile_y_def profile_psi_uminus [OF False])
qed

text \<open>
  C10. With phase offset 0 the profile is mirror-symmetric about the x-axis: at the samples
  \<open>- t\<close> the evaluator returns the same \<open>x\<close> and the negated \<open>y\<close> as at the samples \<open>t\<close>
  (and raises where it raises there).
\<close>

theorem cycloid_profile_xy_mirror:
  "cycloid_profile_xy (map uminus ts) R' Rr' E' N' 0 =
     map_sum id (\<lambda>(xs, ys). (xs, map uminus ys)) (cycloid_profile_xy ts R' Rr' E' N' 0)"
  by (simp add: cycloid_profile_xy_pointwise o_def profile_x_even profile_y_odd)



text \<open>In exact arithmetic, for \<open>E > 0\<close> and \<open>N \<ge> 1\<close>, the quotient \<open>R / (E * N)\<close> is above 1
  exactly when \<open>E < R / N\<close>.\<close>

lemma quotient_above_one_iff:
  assumes "0 < (E'::real)" "1 \<le> (N'::int)"
  shows "(1 < R' / (E' * of_int N')) = (E' < R' / of_int N')"
proof -
  have n: "0 < real_of_int N'" using assms(2) by simp
  have pos: "0 < E' * of_int N'" using assms(1) n by (rule mult_pos_pos)
  show ?thesis
    by (simp only: less_divide_eq_1_pos [OF pos] pos_less_divide_eq [OF n])
qed




subsection \<open>Evenly spaced samples\<close>

lemma linspace_open:
  "0 \<le> num \<Longrightarrow>
     linspace start stop num False =
       Inr (map (\<lambda>j. start + real j * ((stop - start) / of_int num)) [0 ..< nat num])"
  by (cases "num = 0") (simp_all add: linspace_def Let_def o_def add.commute)

lemma linspace_closed:
  assumes "1 < num"
  shows "linspace start stop num True =
       Inr (map (\<lambda>j. start + real j * ((stop - start) / of_int (num - 1))) [0 ..< nat num])"
proof -
  let ?f = "\<lambda>j. start + real j * ((stop - start) / of_int (num - 1))"
  let ?ys = "map ?f [0 ..< nat num]"
  have len: "nat num - 1 < length ?ys" using assms by simp
  have r: "real (nat num - 1) = of_int (num - 1)" using assms by simp
  have nz: "real_of_int (num - 1) \<noteq> 0" using assms by simp
  have "?ys ! (nat num - 1) = ?f (nat num - 1)"
    using len by (simp del: of_nat_diff)
  also have "\<dots> = stop" unfolding r using nz by simp
  finally have last: "?ys ! (nat num - 1) = stop" .
  have upd: "?ys[nat num - 1 := stop] = ?ys"
    using len last by (simp only: list_update_same_conv)
  have "linspace start stop num True = Inr (?ys[nat num - 1 := stop])"
    using assms by (simp add: linspace_def Let_def o_def add.commute)
  then show ?thesis by (simp only: upd)
qed

lemma sorted_linspace_samples:
  assumes "0 < (step::real)"
  shows "sorted_wrt (<) (map (\<lambda>j. start + real j * step) [0 ..< n])"
proof -
  have "sorted_wrt (\<lambda>i j. start + real i * step < start + real j * step) [0 ..< n]"
    by (rule sorted_wrt_mono_rel [OF _ sorted_wrt_upt]) (use assms in simp)
  then show ?thesis by (simp only: sorted_wrt_map)
qed

subsection \<open>The default sweep\<close>

lemma arctan2_zero_pos: "0 < x \<Longrightarrow> arctan2 0 x = 0"
  by (simp add: arctan2_def)

text \<open>
  C2. At the default parameters (\<open>R = 20\<close>, \<open>Rr = 3\<close>, \<open>E = 1.1\<close>, \<open>N = 10\<close>, 1200 samples,
  \<open>eps = 9e-4\<close>, phase offset 0) the script gives no warning and 1200 points, one for each
  of the 1200 strictly increasing parameter values in their order; the first parameter value
  is 0, and there \<open>psi = 0\<close> (as is \<open>arctan2 0 (R / (E * N))\<close>), \<open>x = R - Rr - E = 15.9\<close> and
  \<open>y = 0\<close>.
\<close>

theorem default_sweep_first_point:
  "\<exists>ts xs ys.
      profile_script default_params = Inr ([], ts, (xs, ys), None)
    \<and> length ts = 1200 \<and> length xs = 1200 \<and> length ys = 1200
    \<and> sorted_wrt (<) ts \<and> ts ! 0 = 0
    \<and> xs = map (\<lambda>t. 20 * cos t
                       - 3 * cos (t + arctan2 (sin ((1 - 10) * t)) (20 / (11 / 10 * 10) - cos ((1 - 10) * t)))
                       - 11 / 10 * cos (10 * t)) ts
    \<and> ys = map (\<lambda>t. - 20 * sin t
                       + 3 * sin (t + arctan2 (sin ((1 - 10) * t)) (20 / (11 / 10 * 10) - cos ((1 - 10) * t)))
                       + 11 / 10 * sin (10 * t)) ts
    \<and> arctan2 (sin ((1 - 10) * (ts ! 0))) (20 / (11 / 10 * 10) - cos ((1 - 10) * (ts ! 0))) = 0
    \<and> arctan2 0 (20 / (11 / 10 * 10)) = 0
    \<and> xs ! 0 = 159 / 10 \<and> ys ! 0 = 0"
proof -
  define step :: real where "step = (2 * pi - 9 / 10000 - 0) / of_int (1200 - 1)"
  define ts where "ts = map (\<lambda>j. 0 + real j * step) [0 ..< nat 1200]"
  define fx :: "real \<Rightarrow> real" where "fx = (\<lambda>t. 20 * cos t
                       - 3 * cos (t + arctan2 (sin ((1 - 10) * t)) (20 / (11 / 10 * 10) - cos ((1 - 10) * t)))
                       - 11 / 10 * cos (10 * t))"
  define fy :: "real \<Rightarrow> real" where "fy = (\<lambda>t. - 20 * sin t
                       + 3 * sin (t + arctan2 (sin ((1 - 10) * t)) (20 / (11 / 10 * 10) - cos ((1 - 10) * t)))
                       + 11 / 10 * sin (10 * t))"
  have sweep: "linspace 0 (2 * pi - 9 / 10000) 1200 True = Inr ts"
    unfolding ts_def step_def by (rule linspace_closed) simp
  have warn: "sanity_warnings default_params = Inr []"
    by (simp add: sanity_warnings_def default_params_def)
  have flds: "R default_params = 20" "Rr default_params = 3" "E default_params = 11 / 10"
    "N default_params = 10" "samples default_params = 1200" "eps default_params = 9 / 10000"
    "dual_disc default_params = False"
    by (simp_all add: default_params_def)
  have prof: "cycloid_profile_xy ts 20 3 (11 / 10) 10 0 = Inr (map fx ts, map fy ts)"
    by (simp add: cycloid_profile_xy_pointwise profile_x_def profile_y_def profile_psi_def
        fx_def fy_def)
  have script: "profile_script default_params = Inr ([], ts, (map fx ts, map fy ts), None)"
    unfolding profile_script_def
    by (simp add: warn flds sweep prof)
  have "2 \<le> pi" by (rule pi_ge_two)
  then have step_pos: "0 < step" by (simp add: step_def)
  have len: "length ts = 1200" by (simp add: ts_def)
  have srt: "sorted_wrt (<) ts"
    unfolding ts_def by (rule sorted_linspace_samples [OF step_pos])
  have t0: "ts ! 0 = 0" by (simp add: ts_def)
  have psi0: "arctan2 0 (20 / (11 / 10 * 10)) = 0" by (simp add: arctan2_zero_pos)
  have x0: "fx 0 = 159 / 10" by (simp add: fx_def arctan2_zero_pos)
  have y0: "fy 0 = 0" by (simp add: fy_def arctan2_zero_pos)
  have xs0: "map fx ts ! 0 = 159 / 10" using len t0 x0 by simp
  have ys0: "map fy ts ! 0 = 0" using len t0 y0 by simp
  have psi_t0: "arctan2 (sin ((1 - 10) * (ts ! 0))) (20 / (11 / 10 * 10) - cos ((1 - 10) * (ts ! 0))) = 0"
    unfolding t0 by (simp add: arctan2_zero_pos)
  show ?thesis
    apply (rule exI [of _ ts], rule exI [of _ "map fx ts"], rule exI [of _ "map fy ts"])
    using script len srt t0 xs0 ys0 psi_t0 psi0
    by (simp add: fx_def fy_def)
qed

subsection \<open>Circle placement\<close>

lemma circle_points:
  assumes "0 \<le> k"
  shows "roller_centres r k =
           Inr (map (\<lambda>j. (r * cos (2 * pi * real j / of_int k), r * sin (2 * pi * real j / of_int k)))
                  [0 ..< nat k])"
    and "output_hole_centres r k =
           Inr (map (\<lambda>j. (r * cos (2 * pi * real j / of_int k), r * sin (2 * pi * real j / of_int k)))
                  [0 ..< nat k])"
  by (simp_all add: roller_centres_def output_hole_centres_def linspace_open [OF assms]
      column_stack_def zip_map_same o_def mult.commute mult.left_commute)

lemma circle_point_distance:
  assumes "0 \<le> (r::real)"
  shows "sqrt ((r * cos a)\<^sup>2 + (r * sin a)\<^sup>2) = r"
proof -
  have "(r * cos a)\<^sup>2 + (r * sin a)\<^sup>2 = r\<^sup>2 * ((cos a)\<^sup>2 + (sin a)\<^sup>2)"
    by (simp only: power_mult_distrib distrib_left)
  also have "\<dots> = r\<^sup>2" by simp
  finally show ?thesis using assms by simp
qed

lemma circle_point_step:
  assumes "1 \<le> (k::int)"
  shows "2 * pi * real (Suc j) / of_int k = 2 * pi * real j / of_int k + 2 * pi / of_int k"
  by (simp add: add_divide_distrib algebra_simps)

text \<open>
  C6. For a radius \<open>r \<ge> 0\<close> and a count \<open>k \<ge> 1\<close>, \<open>roller_centres\<close> and
  \<open>output_hole_centres\<close> return the same \<open>k\<close> points, the point of index \<open>j\<close> being
  \<open>(r cos (2 \<pi> j / k), r sin (2 \<pi> j / k))\<close>; every point is at distance \<open>r\<close> from the origin,
  and each point is the one before it rotated about the origin by the angle \<open>2 \<pi> / k\<close>.
\<close>

theorem circle_placement:
  assumes "0 \<le> r" and "1 \<le> k"
  shows "\<exists>pts.
      roller_centres r k = Inr pts \<and> output_hole_centres r k = Inr pts
    \<and> pts = map (\<lambda>j. (r * cos (2 * pi * real j / of_int k), r * sin (2 * pi * real j / of_int k)))
               [0 ..< nat k]
    \<and> int (length pts) = k
    \<and> (\<forall>q \<in> set pts. sqrt ((fst q)\<^sup>2 + (snd q)\<^sup>2) = r)
    \<and> (\<forall>j. Suc j < length pts \<longrightarrow>
          pts ! Suc j =
            (fst (pts ! j) * cos (2 * pi / of_int k) - snd (pts ! j) * sin (2 * pi / of_int k),
             fst (pts ! j) * sin (2 * pi / of_int k) + snd (pts ! j) * cos (2 * pi / of_int k)))"
proof -
  define pt where
    "pt = (\<lambda>j. (r * cos (2 * pi * real j / of_int k), r * sin (2 * pi * real j / of_int k)))"
  define pts where "pts = map pt [0 ..< nat k]"
  have k0: "0 \<le> k" using assms(2) by simp
  have rc: "roller_centres r k = Inr pts"
    unfolding pts_def pt_def by (rule circle_points(1) [OF k0])
  have oc: "output_hole_centres r k = Inr pts"
    unfolding pts_def pt_def by (rule circle_points(2) [OF k0])
  have len: "int (length pts) = k" using k0 by (simp add: pts_def)
  have dist: "\<forall>q \<in> set pts. sqrt ((fst q)\<^sup>2 + (snd q)\<^sup>2) = r"
    by (auto simp add: pts_def pt_def circle_point_distance [OF assms(1)])
  have rot: "\<forall>j. Suc j < length pts \<longrightarrow>
          pts ! Suc j =
            (fst (pts ! j) * cos (2 * pi / of_int k) - snd (pts ! j) * sin (2 * pi / of_int k),
             fst (pts ! j) * sin (2 * pi / of_int k) + snd (pts ! j) * cos (2 * pi / of_int k))"
  proof (intro allI impI)
    fix j assume j: "Suc j < length pts"
    then have a: "pts ! Suc j = pt (Suc j)" and b: "pts ! j = pt j"
      by (simp_all add: pts_def)
    show "pts ! Suc j =
            (fst (pts ! j) * cos (2 * pi / of_int k) - snd (pts ! j) * sin (2 * pi / of_int k),
             fst (pts ! j) * sin (2 * pi / of_int k) + snd (pts ! j) * cos (2 * pi / of_int k))"
      unfolding a b pt_def circle_point_step [OF assms(2)]
      by (simp add: cos_add sin_add algebra_simps)
  qed
  show ?thesis
    apply (rule exI [of _ pts])
    using rc oc len dist rot by (simp add: pts_def pt_def)
qed

text \<open>Four rollers on the pitch circle of radius 20.\<close>

theorem circle_placement_witness:
  "(0::real) \<le> 20 \<and> (1::int) \<le> 4
   \<and> roller_centres 20 4 = Inr [(20, 0), (0, 20), (- 20, 0), (0, - 20)]
   \<and> output_hole_centres 20 4 = Inr [(20, 0), (0, 20), (- 20, 0), (0, - 20)]"
proof -
  have h1: "(0::real) \<le> 20" and h2: "(1::int) \<le> 4" by simp_all
  from circle_placement [OF h1 h2] obtain pts where
    rc: "roller_centres 20 4 = Inr pts" and oc: "output_hole_centres 20 4 = Inr pts"
    and pts: "pts = map (\<lambda>j. (20 * cos (2 * pi * real j / of_int 4), 20 * sin (2 * pi * real j / of_int 4)))
               [0 ..< nat 4]"
    by blast
  have idx: "[0 ..< nat 4] = [0, 1, 2, 3]" by (simp add: upt_rec)
  have a3: "2 * pi * real 3 / real_of_int 4 = 3 / 2 * pi" by simp
  have "pts = [(20, 0), (0, 20), (- 20, 0), (0, - 20)]"
    unfolding pts idx list.map a3 cos_3over2_pi sin_3over2_pi by simp
  then show ?thesis using rc oc by simp
qed

subsection \<open>The sanity checks\<close>

lemma linspace_closed_length:
  "0 \<le> num \<Longrightarrow> \<exists>ts. linspace start stop num True = Inr ts \<and> int (length ts) = num"
  by (simp add: linspace_def Let_def)

lemma profile_script_single:
  assumes w: "sanity_warnings p = Inr ws"
    and s: "0 \<le> samples p"
    and d: "\<not> dual_disc p"
    and nz: "E p * of_int (N p) \<noteq> 0"
  shows "\<exists>ts xs ys. profile_script p = Inr (ws, ts, (xs, ys), None)
           \<and> int (length ts) = samples p \<and> length xs = length ts \<and> length ys = length ts"
proof -
  from linspace_closed_length [OF s] obtain ts where
    ts: "linspace 0 (2 * pi - eps p) (samples p) True = Inr ts" and len: "int (length ts) = samples p"
    by blast
  have "profile_script p =
      Inr (ws, ts, (map (\<lambda>v. profile_x (R p) (Rr p) (E p) (N p) (v + 0)) ts,
                    map (\<lambda>v. profile_y (R p) (Rr p) (E p) (N p) (v + 0)) ts), None)"
    unfolding profile_script_def
    using d nz by (simp add: w ts cycloid_profile_xy_pointwise)
  then show ?thesis using len by simp
qed

text \<open>
  C7. With \<open>R = 1\<close>, \<open>Rr = 1\<close>, \<open>E = 1\<close>, \<open>N = 10\<close> the sanity checks return the warning that
  \<open>R\<close> should be larger than \<open>Rr\<close>, after the warning that \<open>E\<close> is larger than \<open>R / N\<close> (which
  \<open>E = 1 > 1 / 10\<close> triggers, not the pair \<open>R\<close>, \<open>Rr\<close>), and nothing else; with \<open>R = 20\<close>,
  \<open>Rr = 3\<close>, \<open>E = 1.1\<close>, \<open>N = 10\<close> they return no warning. Neither raises, and in both cases
  the script goes on to the 1200 profile points.
\<close>

theorem sanity_warnings_scenarios:
  "sanity_warnings (p\<lparr>R := 1, Rr := 1, E := 1, N := 10\<rparr>) =
     Inr [''E is larger than R/N. This often causes ugly/self-intersecting profiles. Not always invalid, but check fit.'',
          ''R should usually be larger than Rr (roller circle radius vs roller radius).'']
   \<and> sanity_warnings (p\<lparr>R := 20, Rr := 3, E := 11 / 10, N := 10\<rparr>) = Inr []
   \<and> (\<exists>ts xs ys.
         profile_script (default_params\<lparr>R := 1, Rr := 1, E := 1, N := 10\<rparr>) =
           Inr ([''E is larger than R/N. This often causes ugly/self-intersecting profiles. Not always invalid, but check fit.'',
                 ''R should usually be larger than Rr (roller circle radius vs roller radius).''],
                ts, (xs, ys), None)
         \<and> length ts = 1200 \<and> length xs = 1200 \<and> length ys = 1200)
   \<and> (\<exists>ts xs ys.
         profile_script (default_params\<lparr>R := 20, Rr := 3, E := 11 / 10, N := 10\<rparr>) =
           Inr ([], ts, (xs, ys), None)
         \<and> length ts = 1200 \<and> length xs = 1200 \<and> length ys = 1200)"
proof -
  have w1: "sanity_warnings (q\<lparr>R := 1, Rr := 1, E := 1, N := 10\<rparr>) =
     Inr [''E is larger than R/N. This often causes ugly/self-intersecting profiles. Not always invalid, but check fit.'',
          ''R should usually be larger than Rr (roller circle radius vs roller radius).'']" for q
    by (simp add: sanity_warnings_def)
  have w2: "sanity_warnings (q\<lparr>R := 20, Rr := 3, E := 11 / 10, N := 10\<rparr>) = Inr []" for q
    by (simp add: sanity_warnings_def)
  have s1: "\<exists>ts xs ys.
         profile_script (default_params\<lparr>R := 1, Rr := 1, E := 1, N := 10\<rparr>) =
           Inr ([''E is larger than R/N. This often causes ugly/self-intersecting profiles. Not always invalid, but check fit.'',
                 ''R should usually be larger than Rr (roller circle radius vs roller radius).''],
                ts, (xs, ys), None)
         \<and> length ts = 1200 \<and> length xs = 1200 \<and> length ys = 1200"
    using profile_script_single [OF w1 [of default_params]]
    by (auto simp add: default_params_def)
  have s2: "\<exists>ts xs ys.
         profile_script (default_params\<lparr>R := 20, Rr := 3, E := 11 / 10, N := 10\<rparr>) =
           Inr ([], ts, (xs, ys), None)
         \<and> length ts = 1200 \<and> length xs = 1200 \<and> length ys = 1200"
    using profile_script_single [OF w2 [of default_params]]
    by (auto simp add: default_params_def)
  show ?thesis using w1 w2 s1 s2 by blast
qed

subsection \<open>The SolidWorks equation text\<close>

lemma solidworks_equations_lines_nth:
  "solidworks_equations_lines fmt p ! 10 = x_eq_text (N p)"
  "solidworks_equations_lines fmt p ! 11 = y_eq_text (N p)"
  "solidworks_equations_lines fmt p ! 12 = []"
  "solidworks_equations_lines fmt p ! 13 =
     ''Recommended t range: '' @ fmt 0 @ '' to '' @ fmt (2 * pi - eps p) @ '' (avoid exactly 2*pi)''"
  by (simp_all add: solidworks_equations_lines_def recommended_t_range_def Let_def nth_append)

lemma join_lines_append:
  "xs \<noteq> [] \<Longrightarrow> ys \<noteq> [] \<Longrightarrow> join_lines (xs @ ys) = join_lines xs @ [CHR 0x0A] @ join_lines ys"
proof (induction xs rule: join_lines.induct)
  case 1
  then show ?case by simp
next
  case (2 l)
  then show ?case by (cases ys) simp_all
next
  case (3 l m ls)
  then show ?case by simp
qed


lemma solidworks_equations_lines_split:
  "\<exists>hd10 tl3.
     solidworks_equations_lines fmt p =
       hd10 @ [x_eq_text (N p), y_eq_text (N p), [],
               ''Recommended t range: '' @ fmt 0 @ '' to '' @ fmt (2 * pi - eps p)
                 @ '' (avoid exactly 2*pi)''] @ tl3
     \<and> length hd10 = 10 \<and> (tl3 = [] \<or> length tl3 = 3)"
proof (cases "dual_disc p")
  case True
  show ?thesis
    apply (rule exI [of _ "take 10 (solidworks_equations_lines fmt p)"])
    apply (rule exI [of _ "drop 14 (solidworks_equations_lines fmt p)"])
    using True
    by (simp add: solidworks_equations_lines_def recommended_t_range_def Let_def)
next
  case False
  show ?thesis
    apply (rule exI [of _ "take 10 (solidworks_equations_lines fmt p)"])
    apply (rule exI [of _ "[]"])
    using False
    by (simp add: solidworks_equations_lines_def recommended_t_range_def Let_def)
qed

lemma solidworks_equations_text_decomposition:
  "\<exists>pre post.
     solidworks_equations_text fmt p =
       pre @ [CHR 0x0A]
       @ ''X = (R*cos(t)) - (Rr*cos(t + atan( sin((1-'' @ str_int (N p) @ '')*t) / ((R/(E*''
           @ str_int (N p) @ '')) - cos((1-'' @ str_int (N p) @ '')*t)) ))) - (E*cos(''
           @ str_int (N p) @ ''*t))''
       @ [CHR 0x0A]
       @ ''Y = (-R*sin(t)) + (Rr*sin(t + atan( sin((1-'' @ str_int (N p) @ '')*t) / ((R/(E*''
           @ str_int (N p) @ '')) - cos((1-'' @ str_int (N p) @ '')*t)) ))) + (E*sin(''
           @ str_int (N p) @ ''*t))''
       @ [CHR 0x0A, CHR 0x0A]
       @ ''Recommended t range: '' @ fmt 0 @ '' to '' @ fmt (2 * pi - eps p)
           @ '' (avoid exactly 2*pi)''
       @ post
     \<and> (post = [] \<or> hd post = CHR 0x0A)"
proof -
  let ?range = "''Recommended t range: '' @ fmt 0 @ '' to '' @ fmt (2 * pi - eps p)
                 @ '' (avoid exactly 2*pi)''"
  let ?mid = "[x_eq_text (N p), y_eq_text (N p), [], ?range]"
  from solidworks_equations_lines_split [of fmt p] obtain hd10 tl3 where
    lines: "solidworks_equations_lines fmt p = hd10 @ ?mid @ tl3"
    and h: "length hd10 = 10" and t: "tl3 = [] \<or> length tl3 = 3"
    by blast
  have hne: "hd10 \<noteq> []" using h by auto
  have mid: "join_lines ?mid =
      x_eq_text (N p) @ [CHR 0x0A] @ y_eq_text (N p) @ [CHR 0x0A, CHR 0x0A] @ ?range"
    by simp
  define post where "post = (if tl3 = [] then [] else [CHR 0x0A] @ join_lines tl3)"
  have jm: "join_lines (?mid @ tl3) = join_lines ?mid @ post"
  proof (cases "tl3 = []")
    case True
    then show ?thesis by (simp add: post_def)
  next
    case False
    have "join_lines (?mid @ tl3) = join_lines ?mid @ [CHR 0x0A] @ join_lines tl3"
      by (rule join_lines_append) (use False in simp_all)
    then show ?thesis using False by (simp only: post_def if_False)
  qed
  have "solidworks_equations_text fmt p = join_lines hd10 @ [CHR 0x0A] @ join_lines (?mid @ tl3)"
    unfolding solidworks_equations_text_def lines
    by (rule join_lines_append) (use hne in simp_all)
  then have whole: "solidworks_equations_text fmt p =
      join_lines hd10 @ [CHR 0x0A] @ x_eq_text (N p) @ [CHR 0x0A] @ y_eq_text (N p)
        @ [CHR 0x0A, CHR 0x0A] @ ?range @ post"
    by (simp only: jm mid append_assoc)
  have p0: "post = [] \<or> hd post = CHR 0x0A"
    by (simp add: post_def)
  show ?thesis
    apply (rule exI [of _ "join_lines hd10"], rule exI [of _ post])
    using whole p0
    by (simp add: x_eq_text_def y_eq_text_def psi_text_def)
qed

lemma x_eq_text_ten:
  "x_eq_text 10 =
     ''X = (R*cos(t)) - (Rr*cos(t + atan( sin((1-10)*t) / ((R/(E*10)) - cos((1-10)*t)) ))) - (E*cos(10*t))''"
  by code_simp

text \<open>
  C8. For every \<open>Params\<close> value the text contains the \<open>X\<close> and \<open>Y\<close> formula lines, with \<open>psi\<close>
  written as the single-argument \<open>atan( sin((1-N)*t) / ((R/(E*N)) - cos((1-N)*t)) )\<close> and
  \<open>N\<close> printed in decimal, and after an empty line the line that recommends the range from
  \<open>t0 = 0\<close> to \<open>t1 = 2 \<pi> - eps\<close>; for every \<open>eps\<close> of the input range, \<open>eps \<ge> 1e-6\<close>, the upper
  end is below \<open>2 \<pi>\<close>, so the closed interval from 0 to \<open>2 \<pi>\<close> is not recommended.
\<close>

theorem solidworks_equations_text_content:
  "(\<exists>pre post.
     solidworks_equations_text fmt p =
       pre @ [CHR 0x0A]
       @ ''X = (R*cos(t)) - (Rr*cos(t + atan( sin((1-'' @ str_int (N p) @ '')*t) / ((R/(E*''
           @ str_int (N p) @ '')) - cos((1-'' @ str_int (N p) @ '')*t)) ))) - (E*cos(''
           @ str_int (N p) @ ''*t))''
       @ [CHR 0x0A]
       @ ''Y = (-R*sin(t)) + (Rr*sin(t + atan( sin((1-'' @ str_int (N p) @ '')*t) / ((R/(E*''
           @ str_int (N p) @ '')) - cos((1-'' @ str_int (N p) @ '')*t)) ))) + (E*sin(''
           @ str_int (N p) @ ''*t))''
       @ [CHR 0x0A, CHR 0x0A]
       @ ''Recommended t range: '' @ fmt (fst (recommended_t_range p)) @ '' to ''
           @ fmt (snd (recommended_t_range p)) @ '' (avoid exactly 2*pi)''
       @ post
     \<and> (post = [] \<or> hd post = CHR 0x0A))
   \<and> fst (recommended_t_range p) = 0
   \<and> snd (recommended_t_range p) = 2 * pi - eps p
   \<and> (1 / 1000000 \<le> eps p \<longrightarrow>
        snd (recommended_t_range p) < 2 * pi
        \<and> recommended_t_range p \<noteq> (0, 2 * pi))"
  using solidworks_equations_text_decomposition [of fmt p]
  by (simp add: recommended_t_range_def)

text \<open>The default \<open>eps = 9e-4\<close> is in the input range.\<close>

theorem solidworks_equations_text_content_witness:
  "1 / 1000000 \<le> eps default_params
   \<and> fst (recommended_t_range default_params) = 0
   \<and> snd (recommended_t_range default_params) = 2 * pi - 9 / 10000
   \<and> snd (recommended_t_range default_params) < 2 * pi
   \<and> recommended_t_range default_params \<noteq> (0, 2 * pi)"
proof -
  have e: "eps default_params = 9 / 10000" by (simp add: default_params_def)
  have h: "1 / 1000000 \<le> eps default_params" unfolding e by simp
  from solidworks_equations_text_content [of "\<lambda>_. []" default_params] h e
  show ?thesis by simp
qed

end
